theory Spec2Isabelle
  imports Complex_Main "HOL-Library.Sublist"
begin

section \<open>MagPi listener: capture, analysis and persistence pipeline\<close>

text \<open>
  A shallow embedding of the listener service of MagPi
  (\<^verbatim>\<open>listener/src/recorder.py\<close>, \<^verbatim>\<open>analyzer.py\<close>, \<^verbatim>\<open>database.py\<close>,
  \<^verbatim>\<open>db_writer.py\<close>, \<^verbatim>\<open>main.py\<close>, \<^verbatim>\<open>config.py\<close>).

  Conventions of the embedding:
  \<^item> Python \<^verbatim>\<open>int\<close> is \<open>int\<close>; Python \<^verbatim>\<open>float\<close> (and numpy \<^verbatim>\<open>float32\<close>) is \<open>rat\<close>,
    that is, arithmetic without rounding;
  \<^item> a naive \<^verbatim>\<open>datetime\<close> is an \<open>int\<close>, the number of microseconds since the epoch
    (the resolution of \<^verbatim>\<open>datetime\<close>), between \<^verbatim>\<open>datetime.min\<close> and \<^verbatim>\<open>datetime.max\<close>; a
    \<^verbatim>\<open>timedelta\<close> is its number of microseconds;
  \<^item> a \<^verbatim>\<open>queue.Queue\<close> is the list of its items, oldest first. In the worker loops
    \<^verbatim>\<open>put\<close> appends: the thread that calls \<^verbatim>\<open>put\<close> is taken to return from it. In
    \<^verbatim>\<open>ListenerService.stop\<close> the bound \<^verbatim>\<open>maxsize=100\<close> is kept, and a \<^verbatim>\<open>put\<close> on a full
    queue is where \<^verbatim>\<open>stop\<close> stays when no other thread takes an item;
  \<^item> a log field holds, oldest first and at every level, the entries that the modelled
    method itself sends to the logger \<^verbatim>\<open>magpi-listener\<close>; the entries of other threads
    are not in it;
  \<^item> a worker loop is a recursive function over the list of what each iteration
    observes from outside (the clock, the queue, the \<^verbatim>\<open>running\<close> flag).
\<close>

subsection \<open>Configuration (\<^verbatim>\<open>config.py\<close>)\<close>

type_synonym datetime = int

definition timedelta_seconds :: "int \<Rightarrow> int" where
  "timedelta_seconds n = n * 1000000"

record ListenerConfig =
  sample_rate :: int
  chunk_size :: int
  buffer_duration :: int
  sample_duration :: int
  min_confidence :: rat
  duplicate_window :: int
  num_workers :: int
  birdnet_location_lat :: rat
  birdnet_location_lon :: rat

text \<open>The defaults of the dataclass \<^verbatim>\<open>ListenerConfig\<close>.\<close>

definition default_config :: ListenerConfig where
  "default_config =
     \<lparr> sample_rate = 48000, chunk_size = 2048, buffer_duration = 10, sample_duration = 5,
       min_confidence = 1 / 2, duplicate_window = 30, num_workers = 2,
       birdnet_location_lat = 407128 / 10000, birdnet_location_lon = - (74006 / 1000) \<rparr>"

text \<open>
  The exceptions of the model, by class; \<open>OtherError\<close> is an exception raised by an
  external library, with its message.
\<close>

datatype py_error =
  ValueError | AttributeError | ZeroDivisionError | OverflowError | OtherError string

text \<open>
  An entry of the log: \<open>Msg\<close> is a message with exactly this text; \<open>Fmt\<close> is a message
  that starts with this text and goes on with formatted values; \<open>Exc p e\<close> is the
  message \<^verbatim>\<open>f"p{e}"\<close> for the exception \<open>e\<close>, that is \<open>p\<close> followed by \<^verbatim>\<open>str(e)\<close>.
\<close>

datatype log_entry = Msg string | Fmt string | Exc string py_error

subsection \<open>The circular buffer (\<^verbatim>\<open>recorder.py\<close>, class \<^verbatim>\<open>AudioBuffer\<close>)\<close>

text \<open>
  \<^verbatim>\<open>collections.deque(maxlen=n).append(x)\<close>: the item is added on the right and, when
  the deque is then longer than \<open>n\<close>, one item is removed on the left. With \<open>n = 0\<close>
  the deque stays empty.
\<close>

definition deque_append :: "nat \<Rightarrow> 'a list \<Rightarrow> 'a \<Rightarrow> 'a list" where
  "deque_append maxlen d x = (let d' = d @ [x] in if maxlen < length d' then tl d' else d')"

record 'a AudioBuffer =
  buf_sample_rate :: int
  duration_seconds :: int
  buf_sample_duration :: int
  buffer_size :: int
  sample_size :: int
  buffer :: "'a list"

text \<open>\<^verbatim>\<open>AudioBuffer.__init__\<close>; \<^verbatim>\<open>deque(maxlen=n)\<close> raises \<^verbatim>\<open>ValueError\<close> for \<open>n < 0\<close>.\<close>

definition AudioBuffer_init :: "int \<Rightarrow> int \<Rightarrow> int \<Rightarrow> py_error + 'a AudioBuffer" where
  "AudioBuffer_init rate duration sduration =
     (if rate * duration < 0 then Inl ValueError
      else Inr \<lparr> buf_sample_rate = rate, duration_seconds = duration,
                 buf_sample_duration = sduration, buffer_size = rate * duration,
                 sample_size = rate * sduration, buffer = [] \<rparr>)"

text \<open>\<^verbatim>\<open>add_chunk\<close>: \<^verbatim>\<open>for sample in chunk: self.buffer.append(sample)\<close>.\<close>

definition add_chunk :: "'a AudioBuffer \<Rightarrow> 'a list \<Rightarrow> 'a AudioBuffer" where
  "add_chunk b chunk = b\<lparr>buffer := foldl (deque_append (nat (buffer_size b))) (buffer b) chunk\<rparr>"

text \<open>
  The Python slice \<^verbatim>\<open>xs[k:]\<close>: a negative \<open>k\<close> counts from the end and is clamped
  at the start of the list; \<^verbatim>\<open>xs[-0:]\<close> is \<^verbatim>\<open>xs[0:]\<close>, the whole list.
\<close>

definition py_slice_from :: "int \<Rightarrow> 'a list \<Rightarrow> 'a list" where
  "py_slice_from k xs =
     (if k < 0 then drop (nat (int (length xs) + k)) xs else drop (nat k) xs)"

text \<open>
  \<^verbatim>\<open>get_sample\<close>: \<^verbatim>\<open>list(self.buffer)[-self.sample_size:]\<close> when the buffer holds at
  least \<^verbatim>\<open>sample_size\<close> samples, else \<^verbatim>\<open>None\<close>. The buffer holds the \<^verbatim>\<open>float32\<close>
  values of the stream, so the conversion \<^verbatim>\<open>np.array(sample, dtype=np.float32)\<close> keeps
  every value. The method assigns to no attribute of the buffer.
\<close>

definition get_sample :: "'a AudioBuffer \<Rightarrow> 'a list option" where
  "get_sample b =
     (if sample_size b \<le> int (length (buffer b))
      then Some (py_slice_from (- sample_size b) (buffer b)) else None)"


text \<open>The most recent \<open>n\<close> items of a list (all of it when it is shorter).\<close>

definition last_n :: "nat \<Rightarrow> 'a list \<Rightarrow> 'a list" where
  "last_n n xs = drop (length xs - n) xs"

subsection \<open>Windows and detections\<close>

text \<open>
  The dictionary the recorder puts on the samples queue. The key \<^verbatim>\<open>is_mock\<close> is present
  only in the windows of the mock loop: \<open>None\<close> is the absent key.
\<close>

record AudioWindow =
  w_audio :: "rat list"
  w_timestamp :: datetime
  w_sample_rate :: int
  w_is_mock :: "bool option"

text \<open>An entry of \<^verbatim>\<open>recording.detections\<close> of birdnetlib, with the keys the code reads.\<close>

record bn_detection =
  scientific_name :: string
  bn_confidence :: rat
  bn_start_time :: rat
  bn_end_time :: rat

text \<open>A dictionary of the list \<^verbatim>\<open>BirdNETAnalyzer.analyze\<close> returns.\<close>

record detection =
  species :: string
  confidence :: rat
  start_time :: rat
  end_time :: rat

text \<open>
  The dictionary the analyzer worker puts on the detections queue; \<^verbatim>\<open>details\<close> is the
  pair (\<^verbatim>\<open>start_time\<close>, \<^verbatim>\<open>end_time\<close>).
\<close>

record RawDetection =
  rd_species :: string
  rd_confidence :: rat
  rd_timestamp :: datetime
  rd_details :: "rat \<times> rat"

text \<open>
  What one iteration of a consumer loop observes: the \<^verbatim>\<open>running\<close> flag cleared at the
  loop head, or the outcome of \<^verbatim>\<open>queue.get(timeout=1)\<close>: the exception \<^verbatim>\<open>Empty\<close>, the
  item \<^verbatim>\<open>None\<close> (the poison pill), or an item.
\<close>

datatype 'a queue_get = FlagCleared | Empty | Pill | Item 'a

text \<open>Decimal digits of a natural number, for \<^verbatim>\<open>f"{n}"\<close>.\<close>

fun string_of_nat :: "nat \<Rightarrow> string" where
  "string_of_nat n =
     (if n < 10 then [char_of (48 + n)]
      else string_of_nat (n div 10) @ [char_of (48 + n mod 10)])"

declare string_of_nat.simps [simp del]

subsection \<open>The analyzer (\<^verbatim>\<open>analyzer.py\<close>)\<close>

text \<open>
  The external classifier: writing the audio to a file, \<^verbatim>\<open>Recording(path, lat, lon,
  min_conf)\<close>, \<^verbatim>\<open>recording.analyze()\<close> and \<^verbatim>\<open>recording.detections\<close>. It is a parameter of
  the model: from the audio, the sample rate, the latitude, the longitude and the
  minimum confidence it gives the detections, or the message of the exception
  (a subclass of \<^verbatim>\<open>Exception\<close>) it raises.
\<close>

type_synonym classifier = "rat list \<Rightarrow> int \<Rightarrow> rat \<Rightarrow> rat \<Rightarrow> rat \<Rightarrow> string + bn_detection list"

text \<open>
  The attribute \<^verbatim>\<open>self.Recording\<close> after \<^verbatim>\<open>_init_model\<close>. When \<^verbatim>\<open>find_spec\<close> finds no
  birdnetlib the method returns before any assignment and the attribute does not exist;
  when the import raises \<^verbatim>\<open>ImportError\<close> it is \<^verbatim>\<open>None\<close>; else it is the class.
\<close>

datatype Recording_attr = Unset | IsNone | Loaded classifier

datatype import_outcome = SpecNotFound | ImportFails | Imported classifier

fun init_model :: "import_outcome \<Rightarrow> Recording_attr" where
  "init_model SpecNotFound = Unset"
| "init_model ImportFails = IsNone"
| "init_model (Imported f) = Loaded f"

record BirdNETAnalyzer =
  an_config :: ListenerConfig
  Recording :: Recording_attr

definition mock_species :: "string list" where
  "mock_species =
     [''American Robin'', ''Black-capped Chickadee'', ''Common Grackle'',
      ''Northern Cardinal'', ''Blue Jay'']"

text \<open>
  \<^verbatim>\<open>_mock_analyze\<close>. The numpy expression \<^verbatim>\<open>np.sqrt(np.mean(audio ** 2))\<close> is the parameter
  \<open>np_rms\<close>. \<^verbatim>\<open>int(x)\<close> truncates; here \<open>x > 10\<close>, where truncation is the floor.
  \<^verbatim>\<open>len(audio) / sample_rate\<close> raises \<^verbatim>\<open>ZeroDivisionError\<close> for a sample rate 0.
\<close>

definition mock_analyze :: "(rat list \<Rightarrow> rat) \<Rightarrow> rat list \<Rightarrow> int \<Rightarrow> py_error + detection list" where
  "mock_analyze np_rms audio rate =
     (let rms = np_rms audio in
      if 1 / 100 < rms then
        (let conf = min (99 / 100) (1 / 2 + rms * 10);
             species_idx = nat \<lfloor>rms * 1000\<rfloor> mod length mock_species
         in if rate = 0 then Inl ZeroDivisionError
            else Inr [\<lparr> species = mock_species ! species_idx, confidence = conf,
                        start_time = 0, end_time = of_nat (length audio) / of_int rate \<rparr>])
      else Inr [])"

definition detection_of_bn :: "bn_detection \<Rightarrow> detection" where
  "detection_of_bn d =
     \<lparr> species = scientific_name d, confidence = bn_confidence d,
       start_time = bn_start_time d, end_time = bn_end_time d \<rparr>"

text \<open>
  The body of the \<^verbatim>\<open>try\<close> of \<^verbatim>\<open>analyze\<close>: the detections and the messages logged, or the
  exception raised. Reading the attribute \<^verbatim>\<open>self.Recording\<close> that was never assigned
  raises \<^verbatim>\<open>AttributeError\<close>.
\<close>

definition analyze_body ::
  "BirdNETAnalyzer \<Rightarrow> (rat list \<Rightarrow> rat) \<Rightarrow> rat list \<Rightarrow> int \<Rightarrow> py_error + detection list \<times> log_entry list"
where
  "analyze_body an np_rms audio rate =
     (case Recording an of
        Unset \<Rightarrow> Inl AttributeError
      | IsNone \<Rightarrow>
          (case mock_analyze np_rms audio rate of
             Inl e \<Rightarrow> Inl e
           | Inr ds \<Rightarrow> Inr (ds, []))
      | Loaded f \<Rightarrow>
          (case f audio rate (birdnet_location_lat (an_config an))
                  (birdnet_location_lon (an_config an)) (min_confidence (an_config an)) of
             Inl msg \<Rightarrow> Inl (OtherError msg)
           | Inr bs \<Rightarrow>
               (let ds = map detection_of_bn
                           (filter (\<lambda>d. min_confidence (an_config an) \<le> bn_confidence d) bs)
                in Inr (ds, [Msg (''BirdNET found '' @ string_of_nat (length ds) @ '' detections'')]))))"

text \<open>
  \<^verbatim>\<open>analyze\<close>: \<^verbatim>\<open>except Exception as e: logger.error(f"Error in analysis: {e}", ...);
  return []\<close> around the body.
\<close>

definition analyze ::
  "BirdNETAnalyzer \<Rightarrow> (rat list \<Rightarrow> rat) \<Rightarrow> rat list \<Rightarrow> int \<Rightarrow> detection list \<times> log_entry list"
where
  "analyze an np_rms audio rate =
     (case analyze_body an np_rms audio rate of
        Inl e \<Rightarrow> ([], [Exc ''Error in analysis: '' e])
      | Inr r \<Rightarrow> r)"

text \<open>The state an \<^verbatim>\<open>AnalyzerWorker\<close> writes: the detections queue and the log.\<close>

record AnalyzerState =
  detections_queue :: "RawDetection option list"
  a_log :: "log_entry list"

definition raw_detection :: "AudioWindow \<Rightarrow> detection \<Rightarrow> RawDetection" where
  "raw_detection w d =
     \<lparr> rd_species = species d, rd_confidence = confidence d,
       rd_timestamp = w_timestamp w, rd_details = (start_time d, end_time d) \<rparr>"

text \<open>One dequeued window: analyze it and put every detection returned.\<close>

definition process_sample ::
  "BirdNETAnalyzer \<Rightarrow> (rat list \<Rightarrow> rat) \<Rightarrow> AudioWindow \<Rightarrow> AnalyzerState \<Rightarrow> AnalyzerState"
where
  "process_sample an np_rms w st =
     (case analyze an np_rms (w_audio w) (w_sample_rate w) of
        (ds, msgs) \<Rightarrow>
          st\<lparr> detections_queue := detections_queue st @ map (\<lambda>d. Some (raw_detection w d)) ds,
              a_log := a_log st @ msgs \<rparr>)"

text \<open>
  \<^verbatim>\<open>AnalyzerWorker.run\<close>, the loop \<^verbatim>\<open>while self.running\<close>. The list holds what the
  iterations observe; when it is used up the worker is still in its loop.
\<close>

fun analyzer_loop ::
  "BirdNETAnalyzer \<Rightarrow> (rat list \<Rightarrow> rat) \<Rightarrow> AudioWindow queue_get list \<Rightarrow> AnalyzerState \<Rightarrow> AnalyzerState"
where
  "analyzer_loop an np_rms [] st = st"
| "analyzer_loop an np_rms (FlagCleared # rest) st =
     st\<lparr>a_log := a_log st @ [Msg ''Analyzer worker stopped'']\<rparr>"
| "analyzer_loop an np_rms (Empty # rest) st = analyzer_loop an np_rms rest st"
| "analyzer_loop an np_rms (Pill # rest) st =
     st\<lparr>a_log := a_log st @ [Msg ''Analyzer worker stopped'']\<rparr>"
| "analyzer_loop an np_rms (Item w # rest) st =
     analyzer_loop an np_rms rest (process_sample an np_rms w st)"

definition AnalyzerWorker_run ::
  "BirdNETAnalyzer \<Rightarrow> (rat list \<Rightarrow> rat) \<Rightarrow> AudioWindow queue_get list \<Rightarrow> AnalyzerState \<Rightarrow> AnalyzerState"
where
  "AnalyzerWorker_run an np_rms inputs st =
     analyzer_loop an np_rms inputs (st\<lparr>a_log := a_log st @ [Msg ''Analyzer worker started'']\<rparr>)"

text \<open>The detections a step added to the queue.\<close>

definition enqueued :: "AnalyzerState \<Rightarrow> AnalyzerState \<Rightarrow> RawDetection option list" where
  "enqueued st st' = drop (length (detections_queue st)) (detections_queue st')"

text \<open>
  Of what the iterations of a consumer loop observe: the items dequeued before the loop
  is left, in order, and whether the loop is left (by the cleared flag or the pill).
\<close>

fun items :: "'a queue_get list \<Rightarrow> 'a list" where
  "items [] = []"
| "items (FlagCleared # rest) = []"
| "items (Empty # rest) = items rest"
| "items (Pill # rest) = []"
| "items (Item x # rest) = x # items rest"

fun leaves :: "'a queue_get list \<Rightarrow> bool" where
  "leaves [] = False"
| "leaves (FlagCleared # rest) = True"
| "leaves (Empty # rest) = leaves rest"
| "leaves (Pill # rest) = True"
| "leaves (Item x # rest) = leaves rest"

text \<open>
  The detections that \<^verbatim>\<open>analyze\<close> returns for the windows of a list, as the dictionaries
  put on the queue, and the entries \<^verbatim>\<open>analyze\<close> logs for them.
\<close>

definition produced ::
  "BirdNETAnalyzer \<Rightarrow> (rat list \<Rightarrow> rat) \<Rightarrow> AudioWindow list \<Rightarrow> RawDetection option list"
where
  "produced an np_rms ws =
     concat (map (\<lambda>w. map (\<lambda>d. Some (raw_detection w d))
                         (fst (analyze an np_rms (w_audio w) (w_sample_rate w)))) ws)"

definition logged ::
  "BirdNETAnalyzer \<Rightarrow> (rat list \<Rightarrow> rat) \<Rightarrow> AudioWindow list \<Rightarrow> log_entry list"
where
  "logged an np_rms ws =
     concat (map (\<lambda>w. snd (analyze an np_rms (w_audio w) (w_sample_rate w))) ws)"

text \<open>
  The shape of a scientific (binomial) name such as \<open>Turdus migratorius\<close>, the species
  identifier of the specification: a capitalised genus, one space, a lower-case epithet.
\<close>

definition is_upper :: "char \<Rightarrow> bool" where
  "is_upper c = (c \<in> set ''ABCDEFGHIJKLMNOPQRSTUVWXYZ'')"

definition is_lower :: "char \<Rightarrow> bool" where
  "is_lower c = (c \<in> set ''abcdefghijklmnopqrstuvwxyz'')"

definition binomial_name :: "string \<Rightarrow> bool" where
  "binomial_name s =
     (let genus = takeWhile (\<lambda>c. c \<noteq> CHR '' '') s;
          epithet = drop (Suc (length genus)) s
      in genus \<noteq> [] \<and> is_upper (hd genus) \<and> list_all is_lower (tl genus)
         \<and> epithet \<noteq> [] \<and> list_all is_lower epithet)"

subsection \<open>The store (\<^verbatim>\<open>database.py\<close>)\<close>

text \<open>
  A row of the table \<^verbatim>\<open>detections\<close>. The column \<^verbatim>\<open>timestamp\<close> holds
  \<^verbatim>\<open>timestamp.isoformat()\<close> and is compared as text; for two naive datetimes the order
  of the ISO texts is the order of the times, so the model compares the times.
\<close>

record db_row =
  row_id :: nat
  row_species :: string
  row_confidence :: rat
  row_timestamp :: datetime
  latitude :: "rat option"
  longitude :: "rat option"
  row_details :: "(rat \<times> rat) option"

record DetectionDatabase =
  rows :: "db_row list"
  last_rowid :: nat

record Detection =
  det_species :: string
  det_confidence :: rat
  det_timestamp :: datetime
  det_details :: "rat \<times> rat"

text \<open>\<^verbatim>\<open>add_detection\<close>: one \<^verbatim>\<open>INSERT\<close>; returns the new row id with the store.\<close>

definition add_detection ::
  "DetectionDatabase \<Rightarrow> Detection \<Rightarrow> rat option \<Rightarrow> rat option \<Rightarrow> DetectionDatabase \<times> nat"
where
  "add_detection db d lat lon =
     (let i = Suc (last_rowid db) in
      (db\<lparr> rows := rows db @
               [\<lparr> row_id = i, row_species = det_species d, row_confidence = det_confidence d,
                  row_timestamp = det_timestamp d, latitude = lat, longitude = lon,
                  row_details = Some (det_details d) \<rparr>],
            last_rowid := i \<rparr>, i))"

text \<open>
  \<^verbatim>\<open>datetime.min\<close> (year 1) and \<^verbatim>\<open>datetime.max\<close> (the last microsecond of year 9999), in
  microseconds since the epoch.
\<close>

definition datetime_min :: datetime where
  "datetime_min = - 62135596800000000"

definition datetime_max :: datetime where
  "datetime_max = 253402300799999999"

text \<open>
  \<^verbatim>\<open>timedelta(seconds=n)\<close> for an \<^verbatim>\<open>int\<close>: \<^verbatim>\<open>OverflowError\<close> unless the number of days,
  \<open>n div 86400\<close>, has magnitude at most 999999999.
\<close>

definition timedelta_of_seconds :: "int \<Rightarrow> py_error + int" where
  "timedelta_of_seconds n =
     (if - 999999999 \<le> n div 86400 \<and> n div 86400 \<le> 999999999
      then Inr (timedelta_seconds n) else Inl OverflowError)"

text \<open>\<^verbatim>\<open>datetime - timedelta\<close>: \<^verbatim>\<open>OverflowError\<close> when the result is not a datetime.\<close>

definition datetime_minus :: "datetime \<Rightarrow> int \<Rightarrow> py_error + datetime" where
  "datetime_minus t delta =
     (if datetime_min \<le> t - delta \<and> t - delta \<le> datetime_max
      then Inr (t - delta) else Inl OverflowError)"

text \<open>
  \<^verbatim>\<open>check_duplicate\<close>: \<^verbatim>\<open>SELECT COUNT(*) ... WHERE species = ? AND timestamp >= ?\<close> with
  \<^verbatim>\<open>since = datetime.utcnow() - timedelta(seconds=window_seconds)\<close>; \<open>now\<close> is the value
  of \<^verbatim>\<open>datetime.utcnow()\<close> in this call. The method has no handler: the
  \<^verbatim>\<open>OverflowError\<close> of computing \<^verbatim>\<open>since\<close> goes to the caller.
\<close>

definition check_duplicate ::
  "DetectionDatabase \<Rightarrow> string \<Rightarrow> int \<Rightarrow> datetime \<Rightarrow> py_error + bool"
where
  "check_duplicate db sp window_seconds now =
     (case timedelta_of_seconds window_seconds of
        Inl e \<Rightarrow> Inl e
      | Inr delta \<Rightarrow>
          (case datetime_minus now delta of
             Inl e \<Rightarrow> Inl e
           | Inr since \<Rightarrow>
               (let count = length (filter (\<lambda>r. row_species r = sp \<and> since \<le> row_timestamp r)
                                      (rows db))
                in Inr (0 < count))))"

subsection \<open>The database writer (\<^verbatim>\<open>db_writer.py\<close>)\<close>

text \<open>
  The state a \<^verbatim>\<open>DbWriterWorker\<close> writes: the store and the log. The calls of sqlite3 are
  taken to succeed, and the items of the queue are the dictionaries the analyzer worker
  puts, so the handler \<^verbatim>\<open>except Exception\<close> of the loop is entered for the
  \<^verbatim>\<open>OverflowError\<close> of \<^verbatim>\<open>check_duplicate\<close> only.
\<close>

record WriterState =
  db :: DetectionDatabase
  wr_log :: "log_entry list"

text \<open>
  One dequeued detection, with the clock \<open>now\<close> of the duplicate check. An exception of
  the check is logged by the handler of the loop and the detection is dropped.
\<close>

definition write_detection :: "ListenerConfig \<Rightarrow> datetime \<Rightarrow> RawDetection \<Rightarrow> WriterState \<Rightarrow> WriterState" where
  "write_detection cfg now d st =
     (case check_duplicate (db st) (rd_species d) (duplicate_window cfg) now of
        Inl e \<Rightarrow> st\<lparr>wr_log := wr_log st @ [Exc ''Error in writer loop: '' e]\<rparr>
      | Inr True \<Rightarrow> st\<lparr>wr_log := wr_log st @ [Fmt ''Ignoring duplicate detection: '']\<rparr>
      | Inr False \<Rightarrow>
        (case add_detection (db st)
                \<lparr> det_species = rd_species d, det_confidence = rd_confidence d,
                  det_timestamp = rd_timestamp d, det_details = rd_details d \<rparr>
                (Some (birdnet_location_lat cfg)) (Some (birdnet_location_lon cfg)) of
           (db', i) \<Rightarrow>
             st\<lparr> db := db', wr_log := wr_log st @ [Fmt ''Detection saved: ''] \<rparr>))"

text \<open>
  \<^verbatim>\<open>DbWriterWorker.run\<close>, the loop \<^verbatim>\<open>while self.running\<close>; each iteration comes with
  the clock it would read.
\<close>

fun writer_loop ::
  "ListenerConfig \<Rightarrow> (datetime \<times> RawDetection queue_get) list \<Rightarrow> WriterState \<Rightarrow> WriterState"
where
  "writer_loop cfg [] st = st"
| "writer_loop cfg ((now, FlagCleared) # rest) st =
     st\<lparr>wr_log := wr_log st @ [Msg ''Database writer worker stopped'']\<rparr>"
| "writer_loop cfg ((now, Empty) # rest) st = writer_loop cfg rest st"
| "writer_loop cfg ((now, Pill) # rest) st =
     st\<lparr>wr_log := wr_log st @ [Msg ''Database writer worker stopped'']\<rparr>"
| "writer_loop cfg ((now, Item d) # rest) st =
     writer_loop cfg rest (write_detection cfg now d st)"

definition DbWriterWorker_run ::
  "ListenerConfig \<Rightarrow> (datetime \<times> RawDetection queue_get) list \<Rightarrow> WriterState \<Rightarrow> WriterState"
where
  "DbWriterWorker_run cfg inputs st =
     writer_loop cfg inputs (st\<lparr>wr_log := wr_log st @ [Msg ''Database writer worker started'']\<rparr>)"

definition empty_store :: WriterState where
  "empty_store = \<lparr> db = \<lparr> rows = [], last_rowid = 0 \<rparr>, wr_log = [] \<rparr>"





text \<open>The duplicate check returns: computing \<^verbatim>\<open>since\<close> does not overflow.\<close>

definition since_exists :: "int \<Rightarrow> datetime \<Rightarrow> bool" where
  "since_exists window_seconds now =
     (- 999999999 \<le> window_seconds div 86400 \<and> window_seconds div 86400 \<le> 999999999
      \<and> datetime_min \<le> now - timedelta_seconds window_seconds
      \<and> now - timedelta_seconds window_seconds \<le> datetime_max)"

text \<open>The store with other confidences in its rows.\<close>

definition set_confidences :: "(db_row \<Rightarrow> rat) \<Rightarrow> WriterState \<Rightarrow> WriterState" where
  "set_confidences f st =
     st\<lparr>db := (db st)\<lparr>rows := map (\<lambda>r. r\<lparr>row_confidence := f r\<rparr>) (rows (db st))\<rparr>\<rparr>"

subsection \<open>The recorder (\<^verbatim>\<open>recorder.py\<close>, class \<^verbatim>\<open>RecorderWorker\<close>)\<close>

















subsection \<open>The service (\<^verbatim>\<open>main.py\<close>, class \<^verbatim>\<open>ListenerService\<close>)\<close>












subsection \<open>Example inputs\<close>

text \<open>
  A classifier that raises on empty audio and otherwise reports two detections, one of
  them below the default threshold; analyzers in real and in stub mode; an idle worker
  state; a real-audio window.
\<close>

definition example_classifier :: classifier where
  "example_classifier audio rate lat lon min_conf =
     (if audio = [] then Inl ''empty audio''
      else Inr [\<lparr> scientific_name = ''Turdus migratorius'', bn_confidence = 9 / 10,
                  bn_start_time = 0, bn_end_time = 3 \<rparr>,
                \<lparr> scientific_name = ''Poecile atricapillus'', bn_confidence = 2 / 5,
                  bn_start_time = 1, bn_end_time = 4 \<rparr>])"

definition real_analyzer :: BirdNETAnalyzer where
  "real_analyzer = \<lparr> an_config = default_config, Recording = init_model (Imported example_classifier) \<rparr>"

definition stub_analyzer :: "rat \<Rightarrow> BirdNETAnalyzer" where
  "stub_analyzer c =
     \<lparr> an_config = default_config\<lparr>min_confidence := c\<rparr>, Recording = init_model ImportFails \<rparr>"

definition idle :: AnalyzerState where
  "idle = \<lparr> detections_queue = [], a_log = [] \<rparr>"

definition window_of :: "rat list \<Rightarrow> datetime \<Rightarrow> int \<Rightarrow> AudioWindow" where
  "window_of audio ts rate =
     \<lparr> w_audio = audio, w_timestamp = ts, w_sample_rate = rate, w_is_mock = None \<rparr>"

text \<open>A detection of \<open>Turdus migratorius\<close> with a capture timestamp and a confidence.\<close>

definition robin :: "datetime \<Rightarrow> rat \<Rightarrow> RawDetection" where
  "robin ts conf =
     \<lparr> rd_species = ''Turdus migratorius'', rd_confidence = conf, rd_timestamp = ts,
       rd_details = (0, 3) \<rparr>"








subsection \<open>Properties of the circular buffer\<close>

lemma deque_append_last_n:
  assumes le: "length d \<le> n"
  shows "deque_append n d x = last_n n (d @ [x])"
proof (cases "length d = n")
  case True
  then show ?thesis by (cases d) (auto simp: deque_append_def last_n_def Let_def)
next
  case False
  with le have "length d < n" by simp
  then show ?thesis by (simp add: deque_append_def last_n_def Let_def)
qed

lemma last_n_length: "length (last_n n xs) = min n (length xs)"
  by (simp add: last_n_def)

lemma last_n_append_left:
  "last_n n (last_n n xs @ ys) = last_n n (xs @ ys)"
  by (cases "length xs \<le> n") (auto simp: last_n_def add.commute)

lemma foldl_deque_append:
  "length d \<le> n \<Longrightarrow> foldl (deque_append n) d chunk = last_n n (d @ chunk)"
proof (induction chunk arbitrary: d)
  case Nil
  then show ?case by (simp add: last_n_def)
next
  case (Cons x chunk)
  have step: "deque_append n d x = last_n n (d @ [x])"
    using Cons.prems by (rule deque_append_last_n)
  have len: "length (last_n n (d @ [x])) \<le> n"
    by (simp add: last_n_length)
  have "foldl (deque_append n) (last_n n (d @ [x])) chunk = last_n n (last_n n (d @ [x]) @ chunk)"
    using len by (rule Cons.IH)
  also have "\<dots> = last_n n ((d @ [x]) @ chunk)"
    by (rule last_n_append_left)
  finally show ?case using step by simp
qed

lemma add_chunk_buffer:
  assumes "length (buffer b) \<le> nat (buffer_size b)"
  shows "buffer (add_chunk b chunk) = last_n (nat (buffer_size b)) (buffer b @ chunk)"
  using assms by (simp add: add_chunk_def foldl_deque_append)

lemma add_chunk_buffer_size: "buffer_size (add_chunk b chunk) = buffer_size b"
  by (simp add: add_chunk_def)

lemma push_chunks:
  assumes "length (buffer b) \<le> nat (buffer_size b)"
  shows "buffer (foldl add_chunk b chunks) = last_n (nat (buffer_size b)) (buffer b @ concat chunks)
    \<and> buffer_size (foldl add_chunk b chunks) = buffer_size b"
  using assms
proof (induction chunks arbitrary: b)
  case Nil
  then show ?case by (simp add: last_n_def)
next
  case (Cons c chunks)
  let ?b = "add_chunk b c"
  have buf: "buffer ?b = last_n (nat (buffer_size b)) (buffer b @ c)"
    using Cons.prems by (rule add_chunk_buffer)
  have size: "buffer_size ?b = buffer_size b"
    by (rule add_chunk_buffer_size)
  have "length (buffer ?b) \<le> nat (buffer_size ?b)"
    by (simp add: buf size last_n_length)
  from Cons.IH [OF this] show ?case
    by (simp add: buf size last_n_append_left)
qed

lemma suffix_last_n:
  assumes "length ys \<le> n"
  shows "suffix ys (last_n n (xs @ ys))"
proof -
  have "last_n n (xs @ ys) = drop (length xs + length ys - n) xs @ ys"
    using assms by (simp add: last_n_def)
  then show ?thesis by (simp add: suffix_def)
qed

lemma AudioBuffer_init_Inr:
  assumes "AudioBuffer_init rate duration sduration = Inr b"
  shows "buffer b = [] \<and> buffer_size b = rate * duration \<and> sample_size b = rate * sduration
    \<and> 0 \<le> rate * duration"
  using assms by (auto simp: AudioBuffer_init_def split: if_splits)

text \<open>
  C2, as the code has it. For a buffer made by \<^verbatim>\<open>AudioBuffer(...)\<close> and every sequence of
  chunks passed to \<^verbatim>\<open>add_chunk\<close>: the occupancy never exceeds the capacity
  \<open>sample_rate * duration_seconds\<close>; the buffer holds exactly the most recent samples
  pushed, up to the capacity, in their order (the oldest are the ones evicted); and a
  further chunk that is no longer than the capacity is retained whole, at the end of the
  buffer. A chunk longer than the capacity loses its own first samples.
\<close>

theorem add_chunk_keeps_most_recent:
  assumes init: "AudioBuffer_init rate duration sduration = Inr b0"
  shows "length (buffer (foldl add_chunk b0 chunks)) \<le> nat (rate * duration)
    \<and> buffer (foldl add_chunk b0 chunks) = last_n (nat (rate * duration)) (concat chunks)
    \<and> (length chunk \<le> nat (rate * duration) \<longrightarrow>
         suffix chunk (buffer (add_chunk (foldl add_chunk b0 chunks) chunk)))"
proof -
  from AudioBuffer_init_Inr [OF init]
  have b0: "buffer b0 = []" and cap: "buffer_size b0 = rate * duration" by simp_all
  have ok0: "length (buffer b0) \<le> nat (buffer_size b0)" by (simp add: b0)
  let ?b = "foldl add_chunk b0 chunks"
  from push_chunks [OF ok0, of chunks]
  have buf: "buffer ?b = last_n (nat (rate * duration)) (concat chunks)"
    and size: "buffer_size ?b = rate * duration"
    by (simp_all add: b0 cap)
  have len: "length (buffer ?b) \<le> nat (rate * duration)"
    by (simp add: buf last_n_length)
  have ok: "length (buffer ?b) \<le> nat (buffer_size ?b)"
    using len by (simp add: size)
  have "suffix chunk (buffer (add_chunk ?b chunk))" if "length chunk \<le> nat (rate * duration)"
    using that by (simp add: add_chunk_buffer [OF ok] size suffix_last_n)
  with buf len show ?thesis by blast
qed

theorem add_chunk_keeps_most_recent_witness:
  "AudioBuffer_init 1 2 1 =
     Inr \<lparr> buf_sample_rate = 1, duration_seconds = 2, buf_sample_duration = 1,
           buffer_size = 2, sample_size = 1, buffer = ([] :: rat list) \<rparr>
   \<and> buffer (foldl add_chunk
        \<lparr> buf_sample_rate = 1, duration_seconds = 2, buf_sample_duration = 1,
          buffer_size = 2, sample_size = 1, buffer = ([] :: rat list) \<rparr> [[1], [2, 3]]) = [2, 3]
   \<and> suffix [4] (buffer (add_chunk (foldl add_chunk
        \<lparr> buf_sample_rate = 1, duration_seconds = 2, buf_sample_duration = 1,
          buffer_size = 2, sample_size = 1, buffer = ([] :: rat list) \<rparr> [[1], [2, 3]]) [4]))"
proof -
  have init: "AudioBuffer_init 1 2 1 =
     Inr \<lparr> buf_sample_rate = 1, duration_seconds = 2, buf_sample_duration = 1,
           buffer_size = 2, sample_size = 1, buffer = ([] :: rat list) \<rparr>"
    by (simp add: AudioBuffer_init_def)
  from add_chunk_keeps_most_recent [OF init, of "[[1], [2, 3]]" "[4]"] init
  show ?thesis by (simp add: last_n_def)
qed

text \<open>
  C2 as stated fails: with capacity 2 (\<^verbatim>\<open>AudioBuffer(1, 2, 1)\<close>), pushing the chunk
  \<open>[1, 2, 3]\<close> into the empty buffer leaves \<open>[2, 3]\<close>; the newly pushed sample \<open>1\<close> is
  not retained.
\<close>

theorem add_chunk_long_chunk_counterexample:
  "AudioBuffer_init 1 2 1 =
     Inr \<lparr> buf_sample_rate = 1, duration_seconds = 2, buf_sample_duration = 1,
           buffer_size = 2, sample_size = 1, buffer = ([] :: rat list) \<rparr>
   \<and> buffer (add_chunk
        \<lparr> buf_sample_rate = 1, duration_seconds = 2, buf_sample_duration = 1,
          buffer_size = 2, sample_size = 1, buffer = ([] :: rat list) \<rparr> [1, 2, 3]) = [2, 3]
   \<and> 1 \<notin> set (buffer (add_chunk
        \<lparr> buf_sample_rate = 1, duration_seconds = 2, buf_sample_duration = 1,
          buffer_size = 2, sample_size = 1, buffer = ([] :: rat list) \<rparr> [1, 2, 3]))"
  by (simp add: AudioBuffer_init_def add_chunk_def deque_append_def)

text \<open>
  For a positive window size \<^verbatim>\<open>get_sample\<close> returns a window exactly when the buffer
  holds at least \<^verbatim>\<open>sample_size\<close> samples, and the window is the most recent
  \<^verbatim>\<open>sample_size\<close> samples in their order.
\<close>

lemma get_sample_positive_window:
  assumes "0 < sample_size b"
  shows "get_sample b =
     (if sample_size b \<le> int (length (buffer b))
      then Some (last_n (nat (sample_size b)) (buffer b)) else None)"
proof -
  have "nat (int (length (buffer b)) - sample_size b) = length (buffer b) - nat (sample_size b)"
    using assms by simp
  then show ?thesis
    using assms by (simp add: get_sample_def py_slice_from_def last_n_def)
qed

text \<open>
  C3 at window size 0 (\<^verbatim>\<open>AudioBuffer(1, 2, 0)\<close>, \<^verbatim>\<open>sample_size = 0\<close>): after
  \<^verbatim>\<open>add_chunk([0.5, 0.25])\<close>, \<^verbatim>\<open>get_sample()\<close> returns both samples of the buffer, not the
  most recent 0 samples: \<^verbatim>\<open>list(self.buffer)[-0:]\<close> is the whole list.
\<close>

theorem get_sample_zero_window_returns_buffer:
  "AudioBuffer_init 1 2 0 =
     Inr \<lparr> buf_sample_rate = 1, duration_seconds = 2, buf_sample_duration = 0,
           buffer_size = 2, sample_size = 0, buffer = ([] :: rat list) \<rparr>
   \<and> get_sample (add_chunk
        \<lparr> buf_sample_rate = 1, duration_seconds = 2, buf_sample_duration = 0,
          buffer_size = 2, sample_size = 0, buffer = ([] :: rat list) \<rparr> [1 / 2, 1 / 4])
       = Some [1 / 2, 1 / 4]
   \<and> last_n 0 [1 / 2, 1 / 4 :: rat] = []"
  by (simp add: AudioBuffer_init_def add_chunk_def deque_append_def get_sample_def
      py_slice_from_def last_n_def)

subsection \<open>Properties of the analyzer\<close>

lemma process_sample_failure:
  assumes "analyze_body an np_rms (w_audio w) (w_sample_rate w) = Inl e"
  shows "process_sample an np_rms w st = st\<lparr>a_log := a_log st @ [Exc ''Error in analysis: '' e]\<rparr>"
  using assms by (simp add: process_sample_def analyze_def)

lemma analyze_failure:
  assumes "analyze_body an np_rms (w_audio w) (w_sample_rate w) = Inl e"
  shows "produced an np_rms [w] = [] \<and> logged an np_rms [w] = [Exc ''Error in analysis: '' e]"
  using assms by (simp add: produced_def logged_def analyze_def)

lemma produced_append:
  "produced an np_rms (ws @ ws') = produced an np_rms ws @ produced an np_rms ws'"
  by (simp add: produced_def)

lemma logged_append:
  "logged an np_rms (ws @ ws') = logged an np_rms ws @ logged an np_rms ws'"
  by (simp add: logged_def)

lemma process_sample_eq:
  "process_sample an np_rms w st =
     st\<lparr> detections_queue := detections_queue st @ produced an np_rms [w],
         a_log := a_log st @ logged an np_rms [w] \<rparr>"
  by (simp add: process_sample_def produced_def logged_def split: prod.splits)

text \<open>
  The whole loop: it puts the detections of every window it dequeues before it is left,
  in order, and logs what \<^verbatim>\<open>analyze\<close> logs for them.
\<close>

lemma analyzer_loop_run:
  "analyzer_loop an np_rms inputs st =
     st\<lparr> detections_queue := detections_queue st @ produced an np_rms (items inputs),
         a_log := a_log st @ logged an np_rms (items inputs)
                  @ (if leaves inputs then [Msg ''Analyzer worker stopped''] else []) \<rparr>"
proof (induction an np_rms inputs st rule: analyzer_loop.induct)
  case (1 an np_rms st)
  show ?case by (simp add: produced_def logged_def)
next
  case (2 an np_rms rest st)
  show ?case by (simp add: produced_def logged_def)
next
  case (3 an np_rms rest st)
  then show ?case by simp
next
  case (4 an np_rms rest st)
  show ?case by (simp add: produced_def logged_def)
next
  case (5 an np_rms w rest st)
  have "produced an np_rms (w # items rest) = produced an np_rms [w] @ produced an np_rms (items rest)"
    using produced_append [of an np_rms "[w]" "items rest"] by simp
  moreover have "logged an np_rms (w # items rest) = logged an np_rms [w] @ logged an np_rms (items rest)"
    using logged_append [of an np_rms "[w]" "items rest"] by simp
  ultimately show ?case using 5 by (simp add: process_sample_eq)
qed

lemma items_append:
  assumes "\<not> leaves pre"
  shows "items (pre @ rest) = items pre @ items rest \<and> leaves (pre @ rest) = leaves rest"
  using assms by (induction pre rule: items.induct) simp_all

text \<open>
  C6. Let the classification of a window raise an exception (the body of the \<^verbatim>\<open>try\<close> of
  \<^verbatim>\<open>analyze\<close> raises, in any mode), in a run of the worker that dequeues the window
  before its loop is left. Then the run puts on the detections queue the detections of
  the windows dequeued before it and the detections of the windows dequeued after it,
  and none for the window itself; it logs the error once, between what it logs for the
  windows before and for the windows after; and the step of the window changes the state
  of the worker by that log entry only. So the exception ends neither the worker nor its
  loop: every later window is still analyzed and its detections are put.
\<close>

theorem classification_failure_is_caught:
  assumes "analyze_body an np_rms (w_audio w) (w_sample_rate w) = Inl e"
    and "\<not> leaves pre"
  shows "detections_queue (analyzer_loop an np_rms (pre @ Item w # post) st) =
       detections_queue st @ produced an np_rms (items pre) @ produced an np_rms (items post)
    \<and> a_log (analyzer_loop an np_rms (pre @ Item w # post) st) =
       a_log st @ logged an np_rms (items pre) @ [Exc ''Error in analysis: '' e]
         @ logged an np_rms (items post)
         @ (if leaves post then [Msg ''Analyzer worker stopped''] else [])
    \<and> process_sample an np_rms w st = st\<lparr>a_log := a_log st @ [Exc ''Error in analysis: '' e]\<rparr>"
proof -
  from items_append [OF assms(2), of "Item w # post"]
  have split: "items (pre @ Item w # post) = items pre @ w # items post"
    and left: "leaves (pre @ Item w # post) = leaves post"
    by simp_all
  from analyze_failure [OF assms(1)]
  have none: "produced an np_rms [w] = []"
    and err: "logged an np_rms [w] = [Exc ''Error in analysis: '' e]"
    by simp_all
  have p: "produced an np_rms (items pre @ w # items post) =
      produced an np_rms (items pre) @ produced an np_rms (items post)"
    using produced_append [of an np_rms "items pre" "[w] @ items post"]
      produced_append [of an np_rms "[w]" "items post"] none
    by simp
  have l: "logged an np_rms (items pre @ w # items post) =
      logged an np_rms (items pre) @ [Exc ''Error in analysis: '' e] @ logged an np_rms (items post)"
    using logged_append [of an np_rms "items pre" "[w] @ items post"]
      logged_append [of an np_rms "[w]" "items post"] err
    by simp
  show ?thesis
    by (simp add: analyzer_loop_run [of an np_rms "pre @ Item w # post" st] split left p l
        process_sample_failure [OF assms(1)])
qed

theorem classification_failure_is_caught_witness:
  "analyze_body real_analyzer (\<lambda>_. 0) (w_audio (window_of [] 7 48000))
       (w_sample_rate (window_of [] 7 48000)) = Inl (OtherError ''empty audio'')
   \<and> detections_queue (analyzer_loop real_analyzer (\<lambda>_. 0)
        ([Empty] @ Item (window_of [] 7 48000) # [Item (window_of [1 / 2] 9 48000), Pill]) idle) =
      [Some \<lparr> rd_species = ''Turdus migratorius'', rd_confidence = 9 / 10,
              rd_timestamp = 9, rd_details = (0, 3) \<rparr>]
   \<and> a_log (analyzer_loop real_analyzer (\<lambda>_. 0)
        ([Empty] @ Item (window_of [] 7 48000) # [Item (window_of [1 / 2] 9 48000), Pill]) idle) =
      [Exc ''Error in analysis: '' (OtherError ''empty audio''),
       Msg ''BirdNET found 1 detections'', Msg ''Analyzer worker stopped'']"
proof -
  have fails: "analyze_body real_analyzer (\<lambda>_. 0) (w_audio (window_of [] 7 48000))
      (w_sample_rate (window_of [] 7 48000)) = Inl (OtherError ''empty audio'')"
    by code_simp
  have pre: "\<not> leaves ([Empty] :: AudioWindow queue_get list)"
    by simp
  have q: "detections_queue idle @ produced real_analyzer (\<lambda>_. 0) (items [Empty])
      @ produced real_analyzer (\<lambda>_. 0) (items [Item (window_of [1 / 2] 9 48000), Pill]) =
      [Some \<lparr> rd_species = ''Turdus migratorius'', rd_confidence = 9 / 10,
              rd_timestamp = 9, rd_details = (0, 3) \<rparr>]"
    by code_simp
  have l: "a_log idle @ logged real_analyzer (\<lambda>_. 0) (items [Empty])
      @ [Exc ''Error in analysis: '' (OtherError ''empty audio'')]
      @ logged real_analyzer (\<lambda>_. 0) (items [Item (window_of [1 / 2] 9 48000), Pill])
      @ (if leaves [Item (window_of [1 / 2] 9 48000), Pill]
         then [Msg ''Analyzer worker stopped''] else []) =
      [Exc ''Error in analysis: '' (OtherError ''empty audio''),
       Msg ''BirdNET found 1 detections'', Msg ''Analyzer worker stopped'']"
    by code_simp
  from classification_failure_is_caught [OF fails pre, of "[Item (window_of [1 / 2] 9 48000), Pill]" idle]
  show ?thesis unfolding q l using fails by blast
qed

text \<open>
  C4 in stub mode. With \<^verbatim>\<open>min_confidence = 0.9\<close> and \<^verbatim>\<open>self.Recording = None\<close>, a window
  of constant amplitude \<open>1/32\<close> (RMS \<open>1/32 > 0.01\<close>) makes \<^verbatim>\<open>_mock_analyze\<close> return one
  detection of confidence \<open>min(0.99, 0.5 + 10/32) = 13/16\<close>, and the worker puts it on
  the detections queue although \<open>13/16 < 0.9\<close>: the stub never compares with
  \<^verbatim>\<open>min_confidence\<close>.
\<close>

theorem stub_enqueues_below_threshold:
  "detections_queue (process_sample (stub_analyzer (9 / 10)) (\<lambda>_. 1 / 32)
      (window_of [1 / 32, 1 / 32, 1 / 32, 1 / 32] 0 4) idle) =
     [Some \<lparr> rd_species = ''Black-capped Chickadee'', rd_confidence = 13 / 16,
             rd_timestamp = 0, rd_details = (0, 1) \<rparr>]
   \<and> (13 / 16 :: rat) < min_confidence (an_config (stub_analyzer (9 / 10)))"
  by code_simp

lemma enqueued_process_sample:
  "enqueued st (process_sample an np_rms w st) =
     map (\<lambda>d. Some (raw_detection w d)) (fst (analyze an np_rms (w_audio w) (w_sample_rate w)))"
  by (simp add: enqueued_def process_sample_def split: prod.splits)

lemma analyze_Loaded:
  assumes "Recording an = Loaded f"
    and "f (w_audio w) (w_sample_rate w) (birdnet_location_lat (an_config an))
           (birdnet_location_lon (an_config an)) (min_confidence (an_config an)) = Inr bs"
  shows "fst (analyze an np_rms (w_audio w) (w_sample_rate w)) =
     map detection_of_bn (filter (\<lambda>d. min_confidence (an_config an) \<le> bn_confidence d) bs)"
  using assms by (simp add: analyze_def analyze_body_def Let_def)

text \<open>
  In real-classifier mode every detection put on the queue meets the threshold, the
  threshold itself included.
\<close>

lemma real_mode_threshold:
  assumes "Recording an = Loaded f"
  shows "list_all (\<lambda>x. case x of None \<Rightarrow> False
                       | Some rd \<Rightarrow> min_confidence (an_config an) \<le> rd_confidence rd)
           (enqueued st (process_sample an np_rms w st))"
  using assms
  by (auto simp: enqueued_process_sample analyze_def analyze_body_def Let_def list_all_iff
      raw_detection_def detection_of_bn_def split: sum.splits)


lemma mock_analyze_shape:
  assumes "mock_analyze np_rms audio rate = Inr ds"
  shows "list_all (\<lambda>d. species d \<in> set mock_species \<and> start_time d = 0
                       \<and> end_time d = of_nat (length audio) / of_int rate) ds"
proof -
  have "nat \<lfloor>np_rms audio * 1000\<rfloor> mod length mock_species < length mock_species"
    by (simp add: mock_species_def)
  then have "mock_species ! (nat \<lfloor>np_rms audio * 1000\<rfloor> mod length mock_species) \<in> set mock_species"
    by (rule nth_mem)
  with assms show ?thesis
    by (auto simp: mock_analyze_def Let_def split: if_splits)
qed

lemma analyze_timestamp:
  "list_all (\<lambda>x. case x of None \<Rightarrow> False | Some rd \<Rightarrow> rd_timestamp rd = w_timestamp w)
     (enqueued st (process_sample an np_rms w st))"
  by (simp add: enqueued_process_sample list_all_iff raw_detection_def)

lemma analyze_IsNone:
  assumes "Recording an = IsNone"
  shows "list_all (\<lambda>x. case x of None \<Rightarrow> False
                       | Some rd \<Rightarrow> rd_species rd \<in> set mock_species
                           \<and> rd_details rd = (0, of_nat (length (w_audio w)) / of_int (w_sample_rate w)))
           (enqueued st (process_sample an np_rms w st))"
proof (cases "mock_analyze np_rms (w_audio w) (w_sample_rate w)")
  case (Inl e)
  with assms show ?thesis
    by (simp add: enqueued_process_sample analyze_def analyze_body_def)
next
  case (Inr ds)
  from mock_analyze_shape [OF Inr] Inr assms show ?thesis
    by (simp add: enqueued_process_sample analyze_def analyze_body_def list_all_iff raw_detection_def)
qed

text \<open>
  What the worker carries through. Every detection a worker puts carries the capture timestamp of
  its window. In real-classifier mode the detections put are, in order, the classifier's
  detections that meet the threshold, each with the classifier's scientific name as
  species and the classifier's start and end time. In stub mode the species is one of the
  five fixed labels of \<^verbatim>\<open>mock_species\<close> and the span is from 0 to the length of the
  window in seconds.
\<close>

theorem detections_carry_window_data:
  "list_all (\<lambda>x. case x of None \<Rightarrow> False | Some rd \<Rightarrow> rd_timestamp rd = w_timestamp w)
     (enqueued st (process_sample an np_rms w st))
   \<and> (Recording an = Loaded f
        \<and> f (w_audio w) (w_sample_rate w) (birdnet_location_lat (an_config an))
             (birdnet_location_lon (an_config an)) (min_confidence (an_config an)) = Inr bs
      \<longrightarrow> enqueued st (process_sample an np_rms w st) =
            map (\<lambda>b. Some \<lparr> rd_species = scientific_name b, rd_confidence = bn_confidence b,
                            rd_timestamp = w_timestamp w,
                            rd_details = (bn_start_time b, bn_end_time b) \<rparr>)
              (filter (\<lambda>b. min_confidence (an_config an) \<le> bn_confidence b) bs))
   \<and> (Recording an = IsNone
      \<longrightarrow> list_all (\<lambda>x. case x of None \<Rightarrow> False
                       | Some rd \<Rightarrow> rd_species rd \<in> set mock_species
                           \<and> rd_details rd = (0, of_nat (length (w_audio w)) / of_int (w_sample_rate w)))
           (enqueued st (process_sample an np_rms w st)))"
proof -
  have real: "enqueued st (process_sample an np_rms w st) =
            map (\<lambda>b. Some \<lparr> rd_species = scientific_name b, rd_confidence = bn_confidence b,
                            rd_timestamp = w_timestamp w,
                            rd_details = (bn_start_time b, bn_end_time b) \<rparr>)
              (filter (\<lambda>b. min_confidence (an_config an) \<le> bn_confidence b) bs)"
    if "Recording an = Loaded f"
      and "f (w_audio w) (w_sample_rate w) (birdnet_location_lat (an_config an))
             (birdnet_location_lon (an_config an)) (min_confidence (an_config an)) = Inr bs"
    using analyze_Loaded [OF that, of np_rms]
    by (simp add: enqueued_process_sample raw_detection_def detection_of_bn_def)
  from real analyze_timestamp [of w st an np_rms] analyze_IsNone [of an w st np_rms]
  show ?thesis by blast
qed

theorem detections_carry_window_data_witness:
  "Recording real_analyzer = Loaded example_classifier
   \<and> enqueued idle (process_sample real_analyzer (\<lambda>_. 0) (window_of [1 / 2] 9 48000) idle) =
       [Some \<lparr> rd_species = ''Turdus migratorius'', rd_confidence = 9 / 10,
               rd_timestamp = 9, rd_details = (0, 3) \<rparr>]
   \<and> Recording (stub_analyzer (1 / 2)) = IsNone
   \<and> list_all (\<lambda>x. case x of None \<Rightarrow> False
                   | Some rd \<Rightarrow> rd_species rd \<in> set mock_species \<and> rd_details rd = (0, 2))
        (enqueued idle (process_sample (stub_analyzer (1 / 2)) (\<lambda>_. 1 / 16)
           (window_of [1 / 16, 1 / 16] 5 1) idle))"
proof -
  have loaded: "Recording real_analyzer = Loaded example_classifier"
    by (simp add: real_analyzer_def)
  have out: "example_classifier (w_audio (window_of [1 / 2] 9 48000))
      (w_sample_rate (window_of [1 / 2] 9 48000)) (birdnet_location_lat (an_config real_analyzer))
      (birdnet_location_lon (an_config real_analyzer)) (min_confidence (an_config real_analyzer)) =
      Inr [\<lparr> scientific_name = ''Turdus migratorius'', bn_confidence = 9 / 10,
                  bn_start_time = 0, bn_end_time = 3 \<rparr>,
                \<lparr> scientific_name = ''Poecile atricapillus'', bn_confidence = 2 / 5,
                  bn_start_time = 1, bn_end_time = 4 \<rparr>]"
    by (simp add: example_classifier_def window_of_def)
  have stub: "Recording (stub_analyzer (1 / 2)) = IsNone"
    by (simp add: stub_analyzer_def)
  have conf: "min_confidence (an_config real_analyzer) = 1 / 2"
    by (simp add: real_analyzer_def default_config_def)
  from detections_carry_window_data [of "window_of [1 / 2] 9 48000" idle real_analyzer "\<lambda>_. 0"
      example_classifier] loaded out
  have one: "enqueued idle (process_sample real_analyzer (\<lambda>_. 0) (window_of [1 / 2] 9 48000) idle) =
       [Some \<lparr> rd_species = ''Turdus migratorius'', rd_confidence = 9 / 10,
               rd_timestamp = 9, rd_details = (0, 3) \<rparr>]"
    by (simp add: conf window_of_def)
  have span: "rat_of_nat (length (w_audio (window_of [1 / 16, 1 / 16] 5 1))) /
      rat_of_int (w_sample_rate (window_of [1 / 16, 1 / 16] 5 1)) = 2"
    by (simp add: window_of_def)
  from detections_carry_window_data [of "window_of [1 / 16, 1 / 16] 5 1" idle "stub_analyzer (1 / 2)"
      "\<lambda>_. 1 / 16"] stub
  have two: "list_all (\<lambda>x. case x of None \<Rightarrow> False
                   | Some rd \<Rightarrow> rd_species rd \<in> set mock_species \<and> rd_details rd = (0, 2))
        (enqueued idle (process_sample (stub_analyzer (1 / 2)) (\<lambda>_. 1 / 16)
           (window_of [1 / 16, 1 / 16] 5 1) idle))"
    unfolding span by blast
  from loaded one stub two show ?thesis by blast
qed

text \<open>
  C9 in stub mode. With \<^verbatim>\<open>self.Recording = None\<close>, a window of constant amplitude
  \<open>1/16\<close> (RMS \<open>1/16\<close>, so \<^verbatim>\<open>int(62.5) % 5 = 2\<close>) gives a detection whose species is
  the common name \<open>Common Grackle\<close> of \<^verbatim>\<open>mock_species\<close>, not a scientific name; the
  real-classifier path takes \<^verbatim>\<open>detection['scientific_name']\<close>.
\<close>

theorem stub_species_is_common_name:
  "Recording (stub_analyzer (1 / 2)) = IsNone
   \<and> enqueued idle (process_sample (stub_analyzer (1 / 2)) (\<lambda>_. 1 / 16)
        (window_of [1 / 16, 1 / 16] 5 1) idle) =
       [Some \<lparr> rd_species = ''Common Grackle'', rd_confidence = 99 / 100,
               rd_timestamp = 5, rd_details = (0, 2) \<rparr>]
   \<and> \<not> binomial_name ''Common Grackle''
   \<and> binomial_name ''Turdus migratorius''"
proof -
  have "Recording (stub_analyzer (1 / 2)) = IsNone"
    by (simp add: stub_analyzer_def)
  moreover have "enqueued idle (process_sample (stub_analyzer (1 / 2)) (\<lambda>_. 1 / 16)
        (window_of [1 / 16, 1 / 16] 5 1) idle) =
       [Some \<lparr> rd_species = ''Common Grackle'', rd_confidence = 99 / 100,
               rd_timestamp = 5, rd_details = (0, 2) \<rparr>]"
    by code_simp
  moreover have "\<not> binomial_name ''Common Grackle''"
    by code_simp
  moreover have "binomial_name ''Turdus migratorius''"
    by code_simp
  ultimately show ?thesis by blast
qed

subsection \<open>Properties of the database writer\<close>

lemma check_duplicate_eq:
  "check_duplicate d sp window now =
     (if since_exists window now
      then Inr (\<not> list_all (\<lambda>r. row_species r \<noteq> sp
                     \<or> row_timestamp r < now - timedelta_seconds window) (rows d))
      else Inl OverflowError)"
  by (auto simp: check_duplicate_def timedelta_of_seconds_def datetime_minus_def since_exists_def
      Let_def list_all_iff filter_empty_conv not_le)

lemma write_detection_rows:
  "rows (db (write_detection cfg now d st)) =
     (if since_exists (duplicate_window cfg) now
         \<and> list_all (\<lambda>r. row_species r \<noteq> rd_species d
                \<or> row_timestamp r < now - timedelta_seconds (duplicate_window cfg)) (rows (db st))
      then rows (db st) @
        [\<lparr> row_id = Suc (last_rowid (db st)), row_species = rd_species d,
           row_confidence = rd_confidence d, row_timestamp = rd_timestamp d,
           latitude = Some (birdnet_location_lat cfg), longitude = Some (birdnet_location_lon cfg),
           row_details = Some (rd_details d) \<rparr>]
      else rows (db st))"
  by (simp add: write_detection_def check_duplicate_eq add_detection_def Let_def)

lemma write_detection_discards:
  assumes "check_duplicate (db st) (rd_species d) (duplicate_window cfg) now \<noteq> Inr False"
  shows "db (write_detection cfg now d st) = db st"
  using assms by (auto simp: write_detection_def split: sum.splits bool.splits)








lemma write_detection_prefix: "prefix (rows (db st)) (rows (db (write_detection cfg now d st)))"
  by (simp add: write_detection_rows)

lemma writer_loop_prefix: "prefix (rows (db st)) (rows (db (writer_loop cfg inputs st)))"
proof (induction cfg inputs st rule: writer_loop.induct)
  case (5 cfg now d rest st)
  from write_detection_prefix [of st cfg now d] 5 show ?case
    by simp
qed simp_all

lemma check_duplicate_set_confidences:
  "check_duplicate (db (set_confidences f st)) sp window now = check_duplicate (db st) sp window now"
  by (simp add: check_duplicate_eq set_confidences_def list_all_iff)

text \<open>
  C10, as the code has it. The duplicate check gives the same answer whatever the
  confidence of the detection and whatever the confidences of the rows in the store: it
  reads the species and the timestamps only. When the store holds a row of the species
  of a detection whose timestamp is at most \<^verbatim>\<open>duplicate_window\<close> seconds before the clock
  of the check, the detection is discarded and the store is unchanged, for every
  confidence of the detection and all confidences of the rows. No run of the writer
  changes or removes a row already stored.
\<close>

theorem duplicate_first_wins:
  "check_duplicate (db (set_confidences f st)) (rd_species (d\<lparr>rd_confidence := c\<rparr>))
       (duplicate_window cfg) now
     = check_duplicate (db st) (rd_species d) (duplicate_window cfg) now
   \<and> (r \<in> set (rows (db st)) \<and> row_species r = rd_species d
        \<and> now - timedelta_seconds (duplicate_window cfg) \<le> row_timestamp r
      \<longrightarrow> db (write_detection cfg now (d\<lparr>rd_confidence := c\<rparr>) (set_confidences f st))
            = db (set_confidences f st))
   \<and> prefix (rows (db st)) (rows (db (writer_loop cfg inputs st)))"
proof -
  have blind: "check_duplicate (db (set_confidences f st)) (rd_species (d\<lparr>rd_confidence := c\<rparr>))
       (duplicate_window cfg) now
     = check_duplicate (db st) (rd_species d) (duplicate_window cfg) now"
    by (simp add: check_duplicate_set_confidences)
  have first: "db (write_detection cfg now (d\<lparr>rd_confidence := c\<rparr>) (set_confidences f st))
            = db (set_confidences f st)"
    if "r \<in> set (rows (db st))" and "row_species r = rd_species d"
      and "now - timedelta_seconds (duplicate_window cfg) \<le> row_timestamp r"
  proof -
    have "check_duplicate (db st) (rd_species d) (duplicate_window cfg) now \<noteq> Inr False"
      using that by (auto simp: check_duplicate_eq list_all_iff)
    with blind have "check_duplicate (db (set_confidences f st))
        (rd_species (d\<lparr>rd_confidence := c\<rparr>)) (duplicate_window cfg) now \<noteq> Inr False"
      by simp
    then show ?thesis by (rule write_detection_discards)
  qed
  from blind first writer_loop_prefix [of st cfg inputs] show ?thesis by blast
qed

theorem duplicate_first_wins_witness:
  "map row_confidence (rows (db (set_confidences (\<lambda>_. 1 / 10)
       (write_detection default_config 0 (robin 0 (3 / 5)) empty_store)))) = [1 / 10]
   \<and> map row_confidence (rows (db (write_detection default_config (timedelta_seconds 10)
        ((robin (timedelta_seconds 10) (1 / 2))\<lparr>rd_confidence := 99 / 100\<rparr>)
        (set_confidences (\<lambda>_. 1 / 10)
           (write_detection default_config 0 (robin 0 (3 / 5)) empty_store))))) = [1 / 10]"
proof -
  let ?st = "write_detection default_config 0 (robin 0 (3 / 5)) empty_store"
  let ?r = "\<lparr> row_id = 1, row_species = ''Turdus migratorius'', row_confidence = 3 / 5,
             row_timestamp = 0, latitude = Some (birdnet_location_lat default_config),
             longitude = Some (birdnet_location_lon default_config),
             row_details = Some (0, 3) \<rparr>"
  have rows: "rows (db ?st) = [?r]"
    by code_simp
  have mem: "?r \<in> set (rows (db ?st))"
    by (simp add: rows)
  have sp: "row_species ?r = rd_species (robin (timedelta_seconds 10) (1 / 2))"
    by (simp add: robin_def)
  have win: "timedelta_seconds 10 - timedelta_seconds (duplicate_window default_config) \<le> row_timestamp ?r"
    by (simp add: timedelta_seconds_def default_config_def)
  have low: "map row_confidence (rows (db (set_confidences (\<lambda>_. 1 / 10) ?st))) = [1 / 10]"
    by (simp add: set_confidences_def rows)
  from duplicate_first_wins [where f = "\<lambda>_. 1 / 10" and st = ?st
      and d = "robin (timedelta_seconds 10) (1 / 2)" and c = "99 / 100"
      and cfg = default_config and now = "timedelta_seconds 10" and r = ?r] mem sp win
  have "db (write_detection default_config (timedelta_seconds 10)
        ((robin (timedelta_seconds 10) (1 / 2))\<lparr>rd_confidence := 99 / 100\<rparr>)
        (set_confidences (\<lambda>_. 1 / 10) ?st)) = db (set_confidences (\<lambda>_. 1 / 10) ?st)"
    by blast
  with low show ?thesis by simp
qed

text \<open>
  C10 as stated fails, since the window is counted from the stored capture timestamp of
  the first detection, not from the time it was persisted. Window 30 s; the first
  detection, captured at 0 s, is persisted at 5 s; the second, of the same species, is
  processed at 33 s, 28 s after the first was persisted, and is persisted too.
\<close>

theorem duplicate_by_write_time_counterexample:
  "timedelta_seconds 33 - timedelta_seconds 5 \<le> timedelta_seconds (duplicate_window default_config)
   \<and> map row_confidence (rows (db (writer_loop default_config
        [(timedelta_seconds 5, Item (robin 0 (3 / 5))),
         (timedelta_seconds 33, Item (robin (timedelta_seconds 28) (9 / 10)))] empty_store)))
      = [3 / 5, 9 / 10]"
  by code_simp

subsection \<open>Properties of the recorder\<close>













subsection \<open>Properties of the service\<close>










end
